theory Spec2Isabelle
  imports Main
begin

section \<open>Data of the host shell (src/src/main.cpp)\<close>

text \<open>
  \<^verbatim>\<open>glm::ivec4\<close>: four C++ \<^verbatim>\<open>int\<close> components, \<open>c0 .. c3\<close> standing for
  \<^verbatim>\<open>frame[0] .. frame[3]\<close> (x, y, width, height). The program only copies these
  integers, it never computes with them, so they are modelled as \<open>int\<close>.
\<close>

record ivec4 =
  c0 :: int
  c1 :: int
  c2 :: int
  c3 :: int

text \<open>
  Modelled from the spec: the declaration of \<^verbatim>\<open>SystemAction\<close> (its \<^verbatim>\<open>Type\<close> enum,
  the \<^verbatim>\<open>type\<close> and \<^verbatim>\<open>data\<close> members and the converting constructor from a
  \<^verbatim>\<open>Type\<close>) is in a header of the renderer, not in main.cpp. The enumerators are the ones
  \<^verbatim>\<open>performAction\<close> switches on, plus \<open>NONE\<close> (the spec's variants NONE,
  FULLSCREEN_TOGGLE, RESIZE(width, height), LOCK_SIZE, UNLOCK_SIZE, QUIT).
\<close>

datatype SystemAction_Type = NONE | FIX_SIZE | FREE_SIZE | FULLSCREEN | QUIT | RESIZE

record SystemAction =
  type :: SystemAction_Type
  data :: ivec4

definition SystemAction_of :: "SystemAction_Type \<Rightarrow> SystemAction" where
  "SystemAction_of t = \<lparr>type = t, data = \<lparr>c0 = 0, c1 = 0, c2 = 0, c3 = 0\<rparr>\<rparr>"

section \<open>The windowing backend (GLFW), as far as the shell uses it\<close>

text \<open>
  The state GLFW keeps behind the \<^verbatim>\<open>GLFWwindow*\<close> and its context: whether the
  window is bound to a monitor (\<^verbatim>\<open>glfwGetWindowMonitor(window) != nullptr\<close>), the
  position and size its getters report, the \<^verbatim>\<open>GLFW_RESIZABLE\<close> attribute, the swap
  interval of the context and the close flag.
\<close>

record GLFWwindow =
  monitor :: bool
  wpos :: "int \<times> int"
  wsize :: "int \<times> int"
  resizable :: bool
  swapInterval :: int
  shouldClose :: bool

record GLFWvidmode =
  mwidth :: int
  mheight :: int
  refreshRate :: int

text \<open>
  GLFW, GL3W and the renderer are used by main.cpp through their interfaces. What they
  answer is a parameter of the model: a \<open>world\<close> fixes whether initialisation succeeds, which
  window is created, where a window really ends up when a position, a size or a monitor
  binding is requested (a backend may clamp a request to the display), what becomes of the
  swap interval across a monitor switch, the video mode of the primary monitor (a world
  has one), and whether the renderer's direct recording starts.
\<close>

record world =
  glfwInit :: bool
  glfwCreateWindow :: "int \<Rightarrow> int \<Rightarrow> GLFWwindow option"
  setWindowPos :: "int \<Rightarrow> int \<Rightarrow> GLFWwindow \<Rightarrow> (int \<times> int) \<times> (int \<times> int)"
  setWindowSize :: "int \<Rightarrow> int \<Rightarrow> GLFWwindow \<Rightarrow> (int \<times> int) \<times> (int \<times> int)"
  setWindowMonitor ::
    "bool \<Rightarrow> int \<Rightarrow> int \<Rightarrow> int \<Rightarrow> int \<Rightarrow> int \<Rightarrow> GLFWwindow \<Rightarrow> (int \<times> int) \<times> (int \<times> int)"
  vsyncAfterSwitch :: "GLFWwindow \<Rightarrow> int"
  primaryVideoMode :: GLFWvidmode
  gl3wInit :: int
  gl3wIsSupported :: bool
  startDirectRecording :: bool

text \<open>What one call of \<^verbatim>\<open>glfwPollEvents\<close> delivers: a close request of the user, and
  a new position and size when the user has moved or resized the window.\<close>

record events =
  closeRequested :: bool
  moved :: "((int \<times> int) \<times> (int \<times> int)) option"

definition glfwGetWindowMonitor :: "GLFWwindow \<Rightarrow> bool" where
  "glfwGetWindowMonitor w = monitor w"

definition glfwGetWindowPos :: "GLFWwindow \<Rightarrow> int \<times> int" where
  "glfwGetWindowPos w = wpos w"

definition glfwGetWindowSize :: "GLFWwindow \<Rightarrow> int \<times> int" where
  "glfwGetWindowSize w = wsize w"

definition glfwWindowShouldClose :: "GLFWwindow \<Rightarrow> bool" where
  "glfwWindowShouldClose w = shouldClose w"

definition glfwSetWindowShouldClose :: "bool \<Rightarrow> GLFWwindow \<Rightarrow> GLFWwindow" where
  "glfwSetWindowShouldClose v w = w\<lparr>shouldClose := v\<rparr>"

definition glfwSetWindowAttrib_RESIZABLE :: "bool \<Rightarrow> GLFWwindow \<Rightarrow> GLFWwindow" where
  "glfwSetWindowAttrib_RESIZABLE v w = w\<lparr>resizable := v\<rparr>"

definition glfwSwapInterval :: "int \<Rightarrow> GLFWwindow \<Rightarrow> GLFWwindow" where
  "glfwSwapInterval n w = w\<lparr>swapInterval := n\<rparr>"

definition glfwSetWindowPos :: "world \<Rightarrow> int \<Rightarrow> int \<Rightarrow> GLFWwindow \<Rightarrow> GLFWwindow" where
  "glfwSetWindowPos W x y w =
     (let g = setWindowPos W x y w in w\<lparr>wpos := fst g, wsize := snd g\<rparr>)"

definition glfwSetWindowSize :: "world \<Rightarrow> int \<Rightarrow> int \<Rightarrow> GLFWwindow \<Rightarrow> GLFWwindow" where
  "glfwSetWindowSize W wd ht w =
     (let g = setWindowSize W wd ht w in w\<lparr>wpos := fst g, wsize := snd g\<rparr>)"

text \<open>\<^verbatim>\<open>glfwSetWindowMonitor(window, m, x, y, wd, ht, rate)\<close>, with \<open>m\<close> false for
  \<^verbatim>\<open>nullptr\<close> and true for the primary monitor. The attributes of the window are kept
  across the switch; the swap interval is whatever the hardware leaves.\<close>

definition glfwSetWindowMonitor ::
  "world \<Rightarrow> bool \<Rightarrow> int \<Rightarrow> int \<Rightarrow> int \<Rightarrow> int \<Rightarrow> int \<Rightarrow> GLFWwindow \<Rightarrow> GLFWwindow" where
  "glfwSetWindowMonitor W m x y wd ht rate w =
     (let g = setWindowMonitor W m x y wd ht rate w
      in w\<lparr>monitor := m, wpos := fst g, wsize := snd g, swapInterval := vsyncAfterSwitch W w\<rparr>)"

text \<open>No close callback is registered by the program, so polling can raise the close
  flag and never clears it.\<close>

definition glfwPollEvents :: "events \<Rightarrow> GLFWwindow \<Rightarrow> GLFWwindow" where
  "glfwPollEvents e w =
     (let w1 = (case moved e of None \<Rightarrow> w | Some g \<Rightarrow> w\<lparr>wpos := fst g, wsize := snd g\<rparr>)
      in w1\<lparr>shouldClose := (shouldClose w1 \<or> closeRequested e)\<rparr>)"

section \<open>performAction\<close>

text \<open>The two calls \<^verbatim>\<open>glfwGetWindowPos(window, &frame[0], &frame[1]);
  glfwGetWindowSize(window, &frame[2], &frame[3]);\<close> that the source repeats: all four
  components of the frame are overwritten with what the backend reports.\<close>

definition readFrame :: "GLFWwindow \<Rightarrow> ivec4 \<Rightarrow> ivec4" where
  "readFrame w f =
     (let f1 = f\<lparr>c0 := fst (glfwGetWindowPos w), c1 := snd (glfwGetWindowPos w)\<rparr>
      in f1\<lparr>c2 := fst (glfwGetWindowSize w), c3 := snd (glfwGetWindowSize w)\<rparr>)"

text \<open>\<^verbatim>\<open>void performAction(SystemAction action, GLFWwindow * window, glm::ivec4 & frame)\<close>:
  the window and the frame are passed in and returned updated. \<open>QUIT\<close> falls through to
  \<open>default\<close>, which only breaks.\<close>

definition performAction ::
  "world \<Rightarrow> SystemAction \<Rightarrow> GLFWwindow \<Rightarrow> ivec4 \<Rightarrow> GLFWwindow \<times> ivec4" where
  "performAction W action window frame =
     (case type action of
        FULLSCREEN \<Rightarrow>
          (let fullscreen = glfwGetWindowMonitor window
           in if fullscreen then
                (let window1 = glfwSetWindowMonitor W False
                                 (c0 frame) (c1 frame) (c2 frame) (c3 frame) 0 window;
                     frame1 = readFrame window1 frame
                 in (glfwSwapInterval 1 window1, frame1))
              else
                (let frame1 = readFrame window frame;
                     mode = primaryVideoMode W;
                     window1 = glfwSetWindowMonitor W True
                                 0 0 (mwidth mode) (mheight mode) (refreshRate mode) window
                 in (glfwSwapInterval 1 window1, frame1)))
      | RESIZE \<Rightarrow>
          (let window1 = glfwSetWindowSize W (c0 (data action)) (c1 (data action)) window
           in (window1, readFrame window1 frame))
      | FIX_SIZE \<Rightarrow>
          (glfwSwapInterval 0 (glfwSetWindowAttrib_RESIZABLE False window), frame)
      | FREE_SIZE \<Rightarrow>
          (glfwSwapInterval 1 (glfwSetWindowAttrib_RESIZABLE True window), frame)
      | QUIT \<Rightarrow> (glfwSetWindowShouldClose True window, frame)
      | NONE \<Rightarrow> (window, frame))"

section \<open>The display/interaction loop and main\<close>

text \<open>
  The calls \<^verbatim>\<open>main\<close> makes itself, in the order it makes them (the GLFW calls inside
  \<^verbatim>\<open>performAction\<close> show in the window state, not here). \<open>C_cerr\<close> carries the
  message written to standard error, \<open>C_glfwSwapInterval\<close> the interval,
  \<open>C_performAction\<close> the type of the action.
\<close>

datatype call =
    C_glfwInit | C_cerr string | C_Configuration | C_printHelp | C_printVersion
  | C_glfwTerminate | C_glfwWindowHint | C_glfwCreateWindow | C_glfwSetWindowPos
  | C_glfwGetWindowAttrib | C_glfwMakeContextCurrent | C_gl3wInit | C_gl3wIsSupported
  | C_loadResources | C_Renderer | C_ImGui_CreateContext | C_ImGui_configureFont
  | C_ImGui_configureStyle | C_ImGui_ImplGlfw_InitForOpenGL | C_ImGui_ImplOpenGL3_Init
  | C_loadFile | C_State_load | C_setState | C_glfwSetWindowUserPointer
  | C_glfwSetFramebufferSizeCallback | C_glfwSetKeyCallback | C_glfwSetScrollCallback
  | C_glfwSetCharCallback | C_glfwSwapInterval int | C_glfwGetWindowPos
  | C_glfwGetWindowSize | C_glfwGetFramebufferSize | C_resizeAndRescale | C_setGUIScale
  | C_startDirectRecording | C_performAction SystemAction_Type | C_glfwWindowShouldClose
  | C_ImGui_ImplOpenGL3_NewFrame | C_ImGui_ImplGlfw_NewFrame | C_ImGui_NewFrame
  | C_glfwGetTime | C_draw | C_ImGui_Render | C_ImGui_GetDrawData
  | C_ImGui_ImplOpenGL3_RenderDrawData
  | C_glfwSwapBuffers | C_glfwPollEvents | C_ImGui_ImplOpenGL3_Shutdown
  | C_ImGui_ImplGlfw_Shutdown | C_ImGui_DestroyContext | C_clean | C_glfwDestroyWindow

text \<open>The variables the loop works on: the window, the \<^verbatim>\<open>frame\<close> of \<^verbatim>\<open>main\<close>,
  and the calls made so far.\<close>

record session =
  window :: GLFWwindow
  frame :: ivec4
  calls :: "call list"

text \<open>What the outside contributes to one iteration of the loop: the action that
  \<^verbatim>\<open>renderer.draw\<close> returns, and the events that \<^verbatim>\<open>glfwPollEvents\<close> delivers.\<close>

record tick =
  drawn :: SystemAction
  polled :: events

definition called :: "call list \<Rightarrow> session \<Rightarrow> session" where
  "called cs s = s\<lparr>calls := calls s @ cs\<rparr>"

text \<open>A call \<^verbatim>\<open>performAction(action, window, frame)\<close> made by \<^verbatim>\<open>main\<close>.\<close>

definition callPerformAction :: "world \<Rightarrow> SystemAction \<Rightarrow> session \<Rightarrow> session" where
  "callPerformAction W action s =
     (let r = performAction W action (window s) (frame s)
      in s\<lparr>window := fst r, frame := snd r,
           calls := calls s @ [C_performAction (type action)]\<rparr>)"

text \<open>The body of the \<^verbatim>\<open>while\<close> loop.\<close>

definition loopBody :: "world \<Rightarrow> tick \<Rightarrow> session \<Rightarrow> session" where
  "loopBody W t s =
     (let s1 = called [C_ImGui_ImplOpenGL3_NewFrame, C_ImGui_ImplGlfw_NewFrame,
                       C_ImGui_NewFrame, C_glfwGetTime, C_draw] s;
          action = drawn t;
          s2 = callPerformAction W action s1;
          s3 = called [C_ImGui_Render, C_ImGui_GetDrawData, C_ImGui_ImplOpenGL3_RenderDrawData,
                       C_glfwSwapBuffers, C_glfwPollEvents] s2
      in s3\<lparr>window := glfwPollEvents (polled t) (window s3)\<rparr>)"

text \<open>
  \<^verbatim>\<open>while (!glfwWindowShouldClose(window)) { ... }\<close>. The loop runs until the close
  flag is up, which may be never; the list holds what the renderer and the user do in the
  iterations to come, and the result is \<open>None\<close> when the list is used up with the loop
  still running.
\<close>

fun mainLoop :: "world \<Rightarrow> tick list \<Rightarrow> session \<Rightarrow> session option" where
  "mainLoop W [] s =
     (if \<not> glfwWindowShouldClose (window s) then None
      else Some (called [C_glfwWindowShouldClose] s))"
| "mainLoop W (t # ts) s =
     (if \<not> glfwWindowShouldClose (window s)
      then mainLoop W ts (loopBody W t (called [C_glfwWindowShouldClose] s))
      else Some (called [C_glfwWindowShouldClose] s))"

text \<open>The members of \<^verbatim>\<open>Configuration\<close> that \<^verbatim>\<open>main\<close> reads (\<^verbatim>\<open>exporting_path\<close>
  stands for \<^verbatim>\<open>exporting.path\<close>; \<^verbatim>\<open>guiScale\<close>, a float, is only handed on to the
  renderer).\<close>

record Configuration =
  showHelp :: bool
  showVersion :: bool
  hideWindow :: bool
  preventTransparency :: bool
  windowSize :: "int \<times> int"
  windowPos :: "int \<times> int"
  lastMidiPath :: string
  lastConfigPath :: string
  exporting_path :: string
  fullscreen :: bool

text \<open>The block of \<^verbatim>\<open>main\<close> in which the renderer lives, up to the loop: set-up,
  the reading of the initial frame, direct export and initial fullscreen. The result is
  the session the loop starts from.\<close>

definition rendererSetup ::
  "world \<Rightarrow> Configuration \<Rightarrow> GLFWwindow \<Rightarrow> call list \<Rightarrow> session" where
  "rendererSetup W config window0 tr =
     (let tr1 = tr @ [C_loadResources, C_Renderer, C_ImGui_CreateContext,
                      C_ImGui_configureFont, C_ImGui_configureStyle,
                      C_ImGui_ImplGlfw_InitForOpenGL, C_ImGui_ImplOpenGL3_Init];
          tr2 = (if lastMidiPath config \<noteq> [] then tr1 @ [C_loadFile] else tr1);
          tr3 = (if lastConfigPath config \<noteq> [] then tr2 @ [C_State_load] else tr2);
          tr4 = tr3 @ [C_State_load, C_setState, C_glfwSetWindowUserPointer,
                       C_glfwSetFramebufferSizeCallback, C_glfwSetKeyCallback,
                       C_glfwSetScrollCallback, C_glfwSetCharCallback, C_glfwSwapInterval 1];
          window1 = glfwSwapInterval 1 window0;
          frame0 = readFrame window1 \<lparr>c0 = 0, c1 = 0, c2 = 0, c3 = 0\<rparr>;
          s0 = \<lparr>window = window1, frame = frame0,
                calls = tr4 @ [C_glfwGetWindowPos, C_glfwGetWindowSize,
                               C_glfwGetFramebufferSize, C_resizeAndRescale, C_setGUIScale]\<rparr>;
          directRecord = (exporting_path config \<noteq> []);
          s1 = (if directRecord then
                  (let s = called [C_startDirectRecording] s0;
                       success = startDirectRecording W
                   in if \<not> success then callPerformAction W (SystemAction_of QUIT) s else s)
                else s0)
      in if fullscreen config then callPerformAction W (SystemAction_of FULLSCREEN) s1
         else s1)"

text \<open>The whole block: the loop, then the clean-up that follows it.\<close>

definition rendererScope ::
  "world \<Rightarrow> Configuration \<Rightarrow> tick list \<Rightarrow> GLFWwindow \<Rightarrow> call list \<Rightarrow> session option" where
  "rendererScope W config script window0 tr =
     (case mainLoop W script (rendererSetup W config window0 tr) of
        None \<Rightarrow> None
      | Some s \<Rightarrow>
          Some (called [C_ImGui_ImplOpenGL3_Shutdown, C_ImGui_ImplGlfw_Shutdown,
                        C_ImGui_DestroyContext, C_clean] s))"

text \<open>The calls of \<^verbatim>\<open>main\<close> from \<^verbatim>\<open>glfwInit\<close> to the creation of the window, and
  from there to the check of the OpenGL version, when nothing fails.\<close>

definition windowCalls :: "call list" where
  "windowCalls = [C_glfwInit, C_Configuration, C_glfwWindowHint, C_glfwWindowHint,
                  C_glfwWindowHint, C_glfwWindowHint, C_glfwWindowHint, C_glfwWindowHint,
                  C_glfwCreateWindow]"

definition contextCalls :: "call list" where
  "contextCalls = windowCalls @ [C_glfwSetWindowPos, C_glfwGetWindowAttrib,
                                 C_glfwMakeContextCurrent, C_gl3wInit]"

text \<open>\<^verbatim>\<open>int main(int argc, char** argv)\<close>: the value returned and the calls made, or
  \<open>None\<close> when the loop is still running at the end of the script.\<close>

definition main :: "world \<Rightarrow> Configuration \<Rightarrow> tick list \<Rightarrow> (int \<times> call list) option" where
  "main W config script =
     (if \<not> glfwInit W then
        Some (2, [C_glfwInit, C_cerr ''[ERROR]: could not start GLFW3''])
      else if showHelp config then
        Some (0, [C_glfwInit, C_Configuration, C_printHelp, C_glfwTerminate])
      else if showVersion config then
        Some (0, [C_glfwInit, C_Configuration, C_printVersion, C_glfwTerminate])
      else
        (case glfwCreateWindow W (fst (windowSize config)) (snd (windowSize config)) of
           None \<Rightarrow>
             Some (2, windowCalls @ [C_cerr ''[ERROR]: could not open window with GLFW3'',
                                     C_glfwTerminate])
         | Some window0 \<Rightarrow>
             (let window1 = glfwSetWindowPos W (fst (windowPos config))
                              (snd (windowPos config)) window0
              in if gl3wInit W \<noteq> 0 then
                   Some (- 1, contextCalls @ [C_cerr ''[ERROR]: Failed to initialize OpenGL''])
                 else if \<not> gl3wIsSupported W then
                   Some (- 1, contextCalls @
                              [C_gl3wIsSupported,
                               C_cerr ''[ERROR]: OpenGL 3.2 not supported\<newline>''])
                 else
                   (case rendererScope W config script window1
                           (contextCalls @ [C_gl3wIsSupported]) of
                      None \<Rightarrow> None
                    | Some s \<Rightarrow>
                        Some (0, calls s @ [C_glfwDestroyWindow, C_glfwTerminate])))))"

section \<open>Sequences of actions and outside events\<close>

text \<open>A step of the session is an action applied by \<^verbatim>\<open>performAction\<close> or a delivery
  of events by \<^verbatim>\<open>glfwPollEvents\<close>; \<open>run\<close> takes the window and the frame through a
  list of steps, as the loop does with the action of each draw and the events of each
  poll.\<close>

datatype step = Apply SystemAction | Outside events

fun run :: "world \<Rightarrow> step list \<Rightarrow> GLFWwindow \<times> ivec4 \<Rightarrow> GLFWwindow \<times> ivec4" where
  "run W [] s = s"
| "run W (Apply a # xs) s = run W xs (performAction W a (fst s) (snd s))"
| "run W (Outside e # xs) s = run W xs (glfwPollEvents e (fst s), snd s)"

text \<open>Two backends to run the program against. The first reports exactly the geometry
  it is asked for. The second has a display of 1280 by 800 and cuts every requested size
  down to it (and never below one pixel).\<close>

definition exactWorld :: world where
  "exactWorld =
     \<lparr>glfwInit = True,
      glfwCreateWindow = (\<lambda>wd ht. Some \<lparr>monitor = False, wpos = (0, 0), wsize = (wd, ht),
                                      resizable = True, swapInterval = 0,
                                      shouldClose = False\<rparr>),
      setWindowPos = (\<lambda>x y w. ((x, y), wsize w)),
      setWindowSize = (\<lambda>wd ht w. (wpos w, (wd, ht))),
      setWindowMonitor = (\<lambda>m x y wd ht rate w. ((x, y), (wd, ht))),
      vsyncAfterSwitch = (\<lambda>w. 0),
      primaryVideoMode = \<lparr>mwidth = 1920, mheight = 1080, refreshRate = 60\<rparr>,
      gl3wInit = 0,
      gl3wIsSupported = True,
      startDirectRecording = False\<rparr>"

definition clampWorld :: world where
  "clampWorld =
     \<lparr>glfwInit = True,
      glfwCreateWindow = (\<lambda>wd ht. Some \<lparr>monitor = False, wpos = (0, 0),
                                      wsize = (max 1 (min wd 1280), max 1 (min ht 800)),
                                      resizable = True, swapInterval = 0,
                                      shouldClose = False\<rparr>),
      setWindowPos = (\<lambda>x y w. ((x, y), wsize w)),
      setWindowSize = (\<lambda>wd ht w. (wpos w, (max 1 (min wd 1280), max 1 (min ht 800)))),
      setWindowMonitor =
        (\<lambda>m x y wd ht rate w. ((x, y), (max 1 (min wd 1280), max 1 (min ht 800)))),
      vsyncAfterSwitch = (\<lambda>w. swapInterval w),
      primaryVideoMode = \<lparr>mwidth = 1280, mheight = 800, refreshRate = 60\<rparr>,
      gl3wInit = 0,
      gl3wIsSupported = True,
      startDirectRecording = True\<rparr>"

definition window800 :: GLFWwindow where
  "window800 = \<lparr>monitor = False, wpos = (100, 100), wsize = (800, 600),
                resizable = True, swapInterval = 1, shouldClose = False\<rparr>"

definition frame800 :: ivec4 where
  "frame800 = \<lparr>c0 = 100, c1 = 100, c2 = 800, c3 = 600\<rparr>"

definition resize1920 :: SystemAction where
  "resize1920 = \<lparr>type = RESIZE, data = \<lparr>c0 = 1920, c1 = 1080, c2 = 0, c3 = 0\<rparr>\<rparr>"

text \<open>\<open>window800\<close> after a \<open>FIX_SIZE\<close> action.\<close>

definition lockedWindow :: GLFWwindow where
  "lockedWindow = \<lparr>monitor = False, wpos = (100, 100), wsize = (800, 600),
                   resizable = False, swapInterval = 0, shouldClose = False\<rparr>"

text \<open>A window created at 640 by 480 in the corner of the screen, and the frame read from
  it at startup.\<close>

definition window640 :: GLFWwindow where
  "window640 = \<lparr>monitor = False, wpos = (0, 0), wsize = (640, 480),
                resizable = True, swapInterval = 1, shouldClose = False\<rparr>"

definition staleFrame :: ivec4 where
  "staleFrame = \<lparr>c0 = 0, c1 = 0, c2 = 640, c3 = 480\<rparr>"

text \<open>A backend is faithful when a window taken off its monitor gets exactly the position
  and size that \<^verbatim>\<open>glfwSetWindowMonitor\<close> was given.\<close>

definition faithful :: "world \<Rightarrow> bool" where
  "faithful W = (\<forall>x y wd ht w. setWindowMonitor W False x y wd ht 0 w = ((x, y), (wd, ht)))"

text \<open>The backend reports a positive size for a window; it does so after every request
  for a size or a monitor binding; an outside event that changes the geometry leaves a
  positive size.\<close>

definition positiveSize :: "GLFWwindow \<Rightarrow> bool" where
  "positiveSize w = (0 < fst (glfwGetWindowSize w) \<and> 0 < snd (glfwGetWindowSize w))"

definition reportsPositive :: "world \<Rightarrow> bool" where
  "reportsPositive W =
     ((\<forall>wd ht w. 0 < fst (snd (setWindowSize W wd ht w))
                \<and> 0 < snd (snd (setWindowSize W wd ht w)))
      \<and> (\<forall>m x y wd ht rate w. 0 < fst (snd (setWindowMonitor W m x y wd ht rate w))
                              \<and> 0 < snd (snd (setWindowMonitor W m x y wd ht rate w))))"

fun positiveStep :: "step \<Rightarrow> bool" where
  "positiveStep (Apply a) = True"
| "positiveStep (Outside e) =
     (case moved e of None \<Rightarrow> True | Some g \<Rightarrow> 0 < fst (snd g) \<and> 0 < snd (snd g))"

text \<open>A window in fullscreen on the display of 1280 by 800, with a saved frame from a
  larger screen.\<close>

definition fullscreenWindow :: GLFWwindow where
  "fullscreenWindow = \<lparr>monitor = True, wpos = (0, 0), wsize = (1280, 800),
                       resizable = True, swapInterval = 1, shouldClose = False\<rparr>"

definition frame1920 :: ivec4 where
  "frame1920 = \<lparr>c0 = 0, c1 = 0, c2 = 1920, c3 = 1080\<rparr>"

definition resize640 :: SystemAction where
  "resize640 = \<lparr>type = RESIZE, data = \<lparr>c0 = 640, c1 = 480, c2 = 0, c3 = 0\<rparr>\<rparr>"

section \<open>Notions for the loop and for main\<close>

text \<open>The calls made before the first call \<open>c\<close>.\<close>

definition before :: "call \<Rightarrow> call list \<Rightarrow> call list" where
  "before c cs = takeWhile (\<lambda>x. x \<noteq> c) cs"

text \<open>The session after the loop has gone through the iterations of a script, each
  with its test of the loop condition.\<close>

fun iterate :: "world \<Rightarrow> tick list \<Rightarrow> session \<Rightarrow> session" where
  "iterate W [] s = s"
| "iterate W (t # ts) s = iterate W ts (loopBody W t (called [C_glfwWindowShouldClose] s))"

text \<open>Startup succeeds: GLFW starts, neither help nor version is asked for, the window
  \<open>window0\<close> is created, the OpenGL loader succeeds and OpenGL 3.2 is supported.\<close>

definition startsUp :: "world \<Rightarrow> Configuration \<Rightarrow> GLFWwindow \<Rightarrow> bool" where
  "startsUp W config window0 =
     (glfwInit W \<and> \<not> showHelp config \<and> \<not> showVersion config
      \<and> glfwCreateWindow W (fst (windowSize config)) (snd (windowSize config)) = Some window0
      \<and> gl3wInit W = 0 \<and> gl3wIsSupported W)"

text \<open>The session with which \<^verbatim>\<open>main\<close> reaches the loop after such a startup.\<close>

definition loopEntry :: "world \<Rightarrow> Configuration \<Rightarrow> GLFWwindow \<Rightarrow> session" where
  "loopEntry W config window0 =
     rendererSetup W config
       (glfwSetWindowPos W (fst (windowPos config)) (snd (windowPos config)) window0)
       (contextCalls @ [C_gl3wIsSupported])"

text \<open>An iteration that raises the close flag: the draw returns \<open>QUIT\<close>, or the user
  asks for the window to be closed.\<close>

definition closes :: "tick \<Rightarrow> bool" where
  "closes t = (type (drawn t) = QUIT \<or> closeRequested (polled t))"

definition idleTick :: tick where
  "idleTick = \<lparr>drawn = SystemAction_of NONE,
               polled = \<lparr>closeRequested = False, moved = None\<rparr>\<rparr>"

definition quitTick :: tick where
  "quitTick = \<lparr>drawn = SystemAction_of QUIT,
               polled = \<lparr>closeRequested = False, moved = None\<rparr>\<rparr>"

definition session800 :: session where
  "session800 = \<lparr>window = window800, frame = frame800, calls = []\<rparr>"

definition config800 :: Configuration where
  "config800 = \<lparr>showHelp = False, showVersion = False, hideWindow = False,
                preventTransparency = False, windowSize = (800, 600), windowPos = (100, 100),
                lastMidiPath = [], lastConfigPath = [], exporting_path = [],
                fullscreen = False\<rparr>"

text \<open>The window that \<open>exactWorld\<close> creates for \<open>config800\<close>.\<close>

definition created800 :: GLFWwindow where
  "created800 = \<lparr>monitor = False, wpos = (0, 0), wsize = (800, 600),
                 resizable = True, swapInterval = 0, shouldClose = False\<rparr>"

definition exportConfig :: Configuration where
  "exportConfig = config800\<lparr>exporting_path := ''out.mp4'', fullscreen := True\<rparr>"

definition helpConfig :: Configuration where
  "helpConfig = config800\<lparr>showHelp := True\<rparr>"

definition versionConfig :: Configuration where
  "versionConfig = config800\<lparr>showVersion := True\<rparr>"

section \<open>Properties of performAction\<close>

lemmas glfw_defs = glfwGetWindowMonitor_def glfwGetWindowPos_def glfwGetWindowSize_def
  glfwWindowShouldClose_def glfwSetWindowShouldClose_def glfwSetWindowAttrib_RESIZABLE_def
  glfwSwapInterval_def glfwSetWindowPos_def glfwSetWindowSize_def glfwSetWindowMonitor_def
  glfwPollEvents_def

lemma faithful_exactWorld: "faithful exactWorld"
  by (simp add: faithful_def exactWorld_def)

text \<open>
  Claim C4. A \<open>RESIZE\<close> action requests the size held in \<open>data[0]\<close>, \<open>data[1]\<close> from
  the backend and then overwrites all four components of the frame with the position and
  size the backend reports afterwards, whatever the frame held before: the frame holds
  the backend's answer to the request, not the requested size.
\<close>

theorem resize_rereads_frame:
  assumes "type a = RESIZE"
  shows "performAction W a w f =
           (glfwSetWindowSize W (c0 (data a)) (c1 (data a)) w,
            readFrame (glfwSetWindowSize W (c0 (data a)) (c1 (data a)) w) f)
         \<and> snd (performAction W a w f) =
             \<lparr>c0 = fst (fst (setWindowSize W (c0 (data a)) (c1 (data a)) w)),
              c1 = snd (fst (setWindowSize W (c0 (data a)) (c1 (data a)) w)),
              c2 = fst (snd (setWindowSize W (c0 (data a)) (c1 (data a)) w)),
              c3 = snd (snd (setWindowSize W (c0 (data a)) (c1 (data a)) w))\<rparr>"
  using assms by (simp add: performAction_def Let_def readFrame_def glfw_defs)

text \<open>The scenario of the specification: 1920 by 1080 requested on a display of 1280 by
  800.\<close>

theorem resize_rereads_frame_witness:
  "type resize1920 = RESIZE \<and>
   snd (performAction clampWorld resize1920 window800 frame800) =
     \<lparr>c0 = 100, c1 = 100, c2 = 1280, c3 = 800\<rparr>"
  using resize_rereads_frame [where a = resize1920 and W = clampWorld and w = window800
                               and f = frame800]
  by (simp add: resize1920_def clampWorld_def window800_def performAction_def glfw_defs
      readFrame_def Let_def frame800_def)

text \<open>
  Claim C5, as amended. \<open>FIX_SIZE\<close> followed at once by \<open>FREE_SIZE\<close> leaves the swap
  interval at 1 and the window resizable; the resizable attribute is then equal to its
  value before \<open>FIX_SIZE\<close> exactly when the window was resizable before.
\<close>

theorem lock_then_unlock:
  assumes "type a = FIX_SIZE" and "type b = FREE_SIZE"
  shows "swapInterval (fst (run W [Apply a, Apply b] (w, f))) = 1
         \<and> resizable (fst (run W [Apply a, Apply b] (w, f)))
         \<and> (resizable (fst (run W [Apply a, Apply b] (w, f))) = resizable w) = resizable w"
  using assms by (simp add: performAction_def glfw_defs)

theorem lock_then_unlock_witness:
  "type (SystemAction_of FIX_SIZE) = FIX_SIZE \<and> type (SystemAction_of FREE_SIZE) = FREE_SIZE
   \<and> swapInterval (fst (run clampWorld [Apply (SystemAction_of FIX_SIZE),
                                        Apply (SystemAction_of FREE_SIZE)]
                             (window800, frame800))) = 1
   \<and> resizable (fst (run clampWorld [Apply (SystemAction_of FIX_SIZE),
                                     Apply (SystemAction_of FREE_SIZE)]
                          (window800, frame800)))"
  using lock_then_unlock [where a = "SystemAction_of FIX_SIZE" and b = "SystemAction_of FREE_SIZE"
                           and W = clampWorld and w = window800 and f = frame800]
  by (simp add: SystemAction_of_def)

text \<open>On a window that is not resizable to begin with (one an earlier \<open>FIX_SIZE\<close> has
  locked), the attribute is not back at its value: it was false and is true.\<close>

theorem lock_then_unlock_counterexample:
  "resizable (fst (run exactWorld [Apply (SystemAction_of FIX_SIZE),
                                   Apply (SystemAction_of FREE_SIZE)]
                        (lockedWindow, frame800)))
   \<noteq> resizable lockedWindow"
  by (simp add: SystemAction_of_def performAction_def glfw_defs lockedWindow_def)

lemma lockedWindow_reached:
  "fst (performAction exactWorld (SystemAction_of FIX_SIZE) window800 frame800) = lockedWindow"
  by (simp add: SystemAction_of_def performAction_def glfw_defs lockedWindow_def window800_def)

text \<open>
  Claim C10. \<open>FIX_SIZE\<close> followed by \<open>FULLSCREEN\<close> leaves the swap interval at 1, from a
  windowed and from a fullscreen window alike and whatever the monitor switch did to the
  interval, and the window is still not resizable.
\<close>

theorem lock_then_fullscreen:
  assumes "type a = FIX_SIZE" and "type b = FULLSCREEN"
  shows "swapInterval (fst (run W [Apply a, Apply b] (w, f))) = 1
         \<and> \<not> resizable (fst (run W [Apply a, Apply b] (w, f)))"
  using assms by (simp add: performAction_def glfw_defs Let_def)

theorem lock_then_fullscreen_witness:
  "type (SystemAction_of FIX_SIZE) = FIX_SIZE \<and> type (SystemAction_of FULLSCREEN) = FULLSCREEN
   \<and> swapInterval (fst (performAction clampWorld (SystemAction_of FIX_SIZE)
                          window800 frame800)) = 0
   \<and> swapInterval (fst (run clampWorld [Apply (SystemAction_of FIX_SIZE),
                                        Apply (SystemAction_of FULLSCREEN)]
                             (window800, frame800))) = 1
   \<and> \<not> resizable (fst (run clampWorld [Apply (SystemAction_of FIX_SIZE),
                                       Apply (SystemAction_of FULLSCREEN)]
                            (window800, frame800)))"
  using lock_then_fullscreen [where a = "SystemAction_of FIX_SIZE"
                               and b = "SystemAction_of FULLSCREEN"
                               and W = clampWorld and w = window800 and f = frame800]
  by (simp add: SystemAction_of_def performAction_def glfw_defs)

text \<open>
  Claim C1, as amended. On a faithful backend, two \<open>FULLSCREEN\<close> actions in succession on
  a window that is not fullscreen leave in the frame the position and size the backend
  reported just before the first of them, and the window back at that geometry; the
  frame is therefore back at its earlier value whenever it agreed with the backend's
  report before the first toggle.
\<close>

theorem fullscreen_twice:
  assumes "faithful W" and "\<not> glfwGetWindowMonitor w"
    and "type a = FULLSCREEN" and "type b = FULLSCREEN"
  shows "snd (run W [Apply a, Apply b] (w, f)) = readFrame w f
         \<and> (readFrame w f = f \<longrightarrow> snd (run W [Apply a, Apply b] (w, f)) = f)
         \<and> glfwGetWindowPos (fst (run W [Apply a, Apply b] (w, f))) = glfwGetWindowPos w
         \<and> glfwGetWindowSize (fst (run W [Apply a, Apply b] (w, f))) = glfwGetWindowSize w
         \<and> \<not> glfwGetWindowMonitor (fst (run W [Apply a, Apply b] (w, f)))"
  using assms by (simp add: faithful_def performAction_def glfw_defs Let_def readFrame_def)

text \<open>The scenario of the specification: a window of 800 by 600 at (100, 100).\<close>

theorem fullscreen_twice_witness:
  "faithful exactWorld \<and> \<not> glfwGetWindowMonitor window800
   \<and> readFrame window800 frame800 = frame800
   \<and> snd (run exactWorld [Apply (SystemAction_of FULLSCREEN), Apply (SystemAction_of FULLSCREEN)]
             (window800, frame800)) = \<lparr>c0 = 100, c1 = 100, c2 = 800, c3 = 600\<rparr>"
  using fullscreen_twice [where W = exactWorld and w = window800 and f = frame800
                           and a = "SystemAction_of FULLSCREEN"
                           and b = "SystemAction_of FULLSCREEN"]
        faithful_exactWorld
  by (simp add: SystemAction_of_def glfw_defs window800_def frame800_def readFrame_def)

text \<open>The frame does not follow a window that the user moves: it still holds the
  geometry read at startup when the first toggle comes, and the two toggles replace it by
  the geometry of the moved window.\<close>

theorem fullscreen_twice_counterexample:
  "faithful exactWorld \<and> \<not> glfwGetWindowMonitor window800
   \<and> snd (run exactWorld [Apply (SystemAction_of FULLSCREEN), Apply (SystemAction_of FULLSCREEN)]
             (window800, staleFrame)) \<noteq> staleFrame"
  using faithful_exactWorld
  by (simp add: SystemAction_of_def performAction_def glfw_defs Let_def readFrame_def
      window800_def staleFrame_def exactWorld_def)

lemma stale_state_reached:
  "run exactWorld [Outside \<lparr>closeRequested = False, moved = Some ((100, 100), (800, 600))\<rparr>]
     (window640, readFrame window640 \<lparr>c0 = 0, c1 = 0, c2 = 0, c3 = 0\<rparr>)
   = (window800, staleFrame)"
  by (simp add: glfw_defs readFrame_def window640_def window800_def staleFrame_def)

text \<open>One iteration of the loop is a step of \<open>run\<close> for the action drawn followed by
  one for the events polled.\<close>

lemma loopBody_run:
  "(window (loopBody W t s), frame (loopBody W t s))
   = run W [Apply (drawn t), Outside (polled t)] (window s, frame s)"
  by (simp add: loopBody_def callPerformAction_def called_def Let_def)

section \<open>The frame keeps a positive size\<close>

lemma performAction_positive:
  assumes "reportsPositive W" and "positiveSize w" and "0 < c2 f \<and> 0 < c3 f"
  shows "positiveSize (fst (performAction W a w f))
         \<and> 0 < c2 (snd (performAction W a w f)) \<and> 0 < c3 (snd (performAction W a w f))"
  using assms
  by (cases "type a")
     (simp_all add: performAction_def reportsPositive_def positiveSize_def glfw_defs Let_def
        readFrame_def)

lemma glfwPollEvents_positive:
  assumes "positiveStep (Outside e)" and "positiveSize w"
  shows "positiveSize (glfwPollEvents e w)"
  using assms by (auto simp add: positiveSize_def glfw_defs split: option.splits)

lemma run_positive:
  assumes "reportsPositive W" and "\<forall>st \<in> set steps. positiveStep st"
    and "positiveSize (fst s)" and "0 < c2 (snd s) \<and> 0 < c3 (snd s)"
  shows "positiveSize (fst (run W steps s))
         \<and> 0 < c2 (snd (run W steps s)) \<and> 0 < c3 (snd (run W steps s))"
  using assms(2-)
proof (induction steps arbitrary: s)
  case Nil
  then show ?case by simp
next
  case (Cons st steps)
  show ?case
  proof (cases st)
    case (Apply a)
    have "positiveSize (fst (performAction W a (fst s) (snd s)))
          \<and> 0 < c2 (snd (performAction W a (fst s) (snd s)))
          \<and> 0 < c3 (snd (performAction W a (fst s) (snd s)))"
      using performAction_positive [OF assms(1)] Cons.prems by blast
    with Cons.IH [of "performAction W a (fst s) (snd s)"] Cons.prems(1) Apply
    show ?thesis by simp
  next
    case (Outside e)
    have "positiveSize (glfwPollEvents e (fst s))"
      using glfwPollEvents_positive Cons.prems Outside by simp
    with Cons.IH [of "(glfwPollEvents e (fst s), snd s)"] Cons.prems Outside
    show ?thesis by simp
  qed
qed

lemma reportsPositive_clampWorld: "reportsPositive clampWorld"
  by (auto simp add: reportsPositive_def clampWorld_def)

text \<open>
  Claim C2. Start from the state of startup, in which the frame has just been read from
  the backend, and apply any sequence of actions, with any outside events in between. If
  the backend only ever reports positive window sizes (at startup, after each request,
  and after each outside change), then width and height of the frame, \<open>frame[2]\<close> and
  \<open>frame[3]\<close>, are positive at the end, hence after every single action on the way.
\<close>

theorem frame_size_positive:
  assumes "reportsPositive W" and "positiveSize w0" and "\<forall>st \<in> set steps. positiveStep st"
  shows "0 < c2 (snd (run W steps (w0, readFrame w0 f0)))
         \<and> 0 < c3 (snd (run W steps (w0, readFrame w0 f0)))"
proof -
  have "0 < c2 (readFrame w0 f0) \<and> 0 < c3 (readFrame w0 f0)"
    using assms(2) by (simp add: positiveSize_def readFrame_def Let_def)
  with run_positive [OF assms(1) assms(3), of "(w0, readFrame w0 f0)"] assms(2)
  show ?thesis by simp
qed

theorem frame_size_positive_witness:
  "reportsPositive clampWorld \<and> positiveSize window800
   \<and> list_all positiveStep
         [Apply (SystemAction_of FULLSCREEN), Apply resize1920,
          Outside \<lparr>closeRequested = False, moved = Some ((5, 5), (300, 200))\<rparr>,
          Apply (SystemAction_of FULLSCREEN)]
   \<and> 0 < c2 (snd (run clampWorld [Apply (SystemAction_of FULLSCREEN), Apply resize1920,
                   Outside \<lparr>closeRequested = False, moved = Some ((5, 5), (300, 200))\<rparr>,
                   Apply (SystemAction_of FULLSCREEN)]
                 (window800, readFrame window800 \<lparr>c0 = 0, c1 = 0, c2 = 0, c3 = 0\<rparr>)))
   \<and> 0 < c3 (snd (run clampWorld [Apply (SystemAction_of FULLSCREEN), Apply resize1920,
                   Outside \<lparr>closeRequested = False, moved = Some ((5, 5), (300, 200))\<rparr>,
                   Apply (SystemAction_of FULLSCREEN)]
                 (window800, readFrame window800 \<lparr>c0 = 0, c1 = 0, c2 = 0, c3 = 0\<rparr>)))"
proof -
  have p: "positiveSize window800"
    by (simp add: positiveSize_def glfw_defs window800_def)
  have l: "list_all positiveStep
         [Apply (SystemAction_of FULLSCREEN), Apply resize1920,
          Outside \<lparr>closeRequested = False, moved = Some ((5, 5), (300, 200))\<rparr>,
          Apply (SystemAction_of FULLSCREEN)]"
    by simp
  then have s: "\<forall>st \<in> set [Apply (SystemAction_of FULLSCREEN), Apply resize1920,
                   Outside \<lparr>closeRequested = False, moved = Some ((5, 5), (300, 200))\<rparr>,
                   Apply (SystemAction_of FULLSCREEN)]. positiveStep st"
    by (simp only: list_all_iff)
  show ?thesis
    using frame_size_positive [OF reportsPositive_clampWorld p s] reportsPositive_clampWorld p l
    by blast
qed

section \<open>Where the frame is written\<close>

text \<open>
  Claim C6, as amended. \<open>NONE\<close>, \<open>FIX_SIZE\<close>, \<open>FREE_SIZE\<close> and \<open>QUIT\<close> leave the frame
  as it is. The frame is written at three points: by \<open>FULLSCREEN\<close> on a windowed window,
  from the backend's report before the window goes to fullscreen (the backup); by
  \<open>FULLSCREEN\<close> on a fullscreen window, from the report after the window has been taken
  off the monitor (it is windowed again at that point); and by \<open>RESIZE\<close>, from the report
  after the size request, whether the window is fullscreen or not (the action does not
  change that).
\<close>

theorem frame_writes:
  "(type a \<in> {NONE, FIX_SIZE, FREE_SIZE, QUIT} \<longrightarrow> snd (performAction W a w f) = f)
   \<and> (type a = FULLSCREEN \<and> \<not> glfwGetWindowMonitor w \<longrightarrow>
        snd (performAction W a w f) = readFrame w f
        \<and> glfwGetWindowMonitor (fst (performAction W a w f)))
   \<and> (type a = FULLSCREEN \<and> glfwGetWindowMonitor w \<longrightarrow>
        snd (performAction W a w f) = readFrame (fst (performAction W a w f)) f
        \<and> \<not> glfwGetWindowMonitor (fst (performAction W a w f)))
   \<and> (type a = RESIZE \<longrightarrow>
        snd (performAction W a w f) = readFrame (fst (performAction W a w f)) f
        \<and> glfwGetWindowMonitor (fst (performAction W a w f)) = glfwGetWindowMonitor w)"
  by (cases "type a") (simp_all add: performAction_def glfw_defs Let_def readFrame_def)

theorem frame_writes_witness:
  "snd (performAction clampWorld (SystemAction_of QUIT) window800 frame800) = frame800
   \<and> snd (performAction clampWorld (SystemAction_of FULLSCREEN) window800 staleFrame) = frame800
   \<and> snd (performAction clampWorld (SystemAction_of FULLSCREEN) fullscreenWindow frame1920)
       = \<lparr>c0 = 0, c1 = 0, c2 = 1280, c3 = 800\<rparr>
   \<and> snd (performAction clampWorld resize640 fullscreenWindow frame1920)
       = \<lparr>c0 = 0, c1 = 0, c2 = 640, c3 = 480\<rparr>"
  using frame_writes [where a = "SystemAction_of QUIT" and W = clampWorld and w = window800
                       and f = frame800]
        frame_writes [where a = "SystemAction_of FULLSCREEN" and W = clampWorld
                       and w = window800 and f = staleFrame]
        frame_writes [where a = "SystemAction_of FULLSCREEN" and W = clampWorld
                       and w = fullscreenWindow and f = frame1920]
        frame_writes [where a = resize640 and W = clampWorld
                       and w = fullscreenWindow and f = frame1920]
  by (simp add: SystemAction_of_def resize640_def performAction_def glfw_defs Let_def
      readFrame_def clampWorld_def window800_def frame800_def staleFrame_def
      fullscreenWindow_def frame1920_def)

text \<open>On the display of 1280 by 800: the window of 800 by 600 goes to fullscreen, and a
  \<open>RESIZE\<close> that follows changes the frame while the window is, and stays, fullscreen.
  And for a window in fullscreen whose saved frame is 1920 by 1080, from a larger screen,
  leaving fullscreen changes the frame: a write that is neither a backup before a
  fullscreen transition nor a refresh after a resize.\<close>

theorem frame_writes_counterexample:
  "glfwGetWindowMonitor
     (fst (run clampWorld [Apply (SystemAction_of FULLSCREEN)] (window800, frame800)))
   \<and> snd (run clampWorld [Apply (SystemAction_of FULLSCREEN), Apply resize640]
             (window800, frame800))
       \<noteq> snd (run clampWorld [Apply (SystemAction_of FULLSCREEN)] (window800, frame800))
   \<and> glfwGetWindowMonitor
        (fst (run clampWorld [Apply (SystemAction_of FULLSCREEN), Apply resize640]
                (window800, frame800)))
   \<and> glfwGetWindowMonitor fullscreenWindow
   \<and> snd (performAction clampWorld (SystemAction_of FULLSCREEN) fullscreenWindow frame1920)
       \<noteq> frame1920"
  by (simp add: SystemAction_of_def resize640_def performAction_def glfw_defs Let_def
      readFrame_def clampWorld_def fullscreenWindow_def frame1920_def window800_def
      frame800_def)

section \<open>The loop\<close>

lemma called_simps:
  "calls (called cs s) = calls s @ cs" "window (called cs s) = window s"
  "frame (called cs s) = frame s"
  by (simp_all add: called_def)

lemma loopBody_calls:
  "calls (loopBody W t s) =
     calls s @ [C_ImGui_ImplOpenGL3_NewFrame, C_ImGui_ImplGlfw_NewFrame, C_ImGui_NewFrame,
                C_glfwGetTime, C_draw, C_performAction (type (drawn t)), C_ImGui_Render, C_ImGui_GetDrawData,
                C_ImGui_ImplOpenGL3_RenderDrawData, C_glfwSwapBuffers, C_glfwPollEvents]"
  by (simp add: loopBody_def callPerformAction_def called_def Let_def)

text \<open>
  Claim C9, as amended. In every iteration of the loop the draw of the renderer comes
  first and \<^verbatim>\<open>glfwPollEvents\<close> comes last, after the buffers are swapped: within an
  iteration the draw precedes the poll, and no poll precedes the draw. The events polled
  in one iteration are there for the draw of the next.
\<close>

theorem draw_then_poll:
  "calls (loopBody W t s) =
     calls s @ [C_ImGui_ImplOpenGL3_NewFrame, C_ImGui_ImplGlfw_NewFrame, C_ImGui_NewFrame,
                C_glfwGetTime, C_draw, C_performAction (type (drawn t)), C_ImGui_Render, C_ImGui_GetDrawData,
                C_ImGui_ImplOpenGL3_RenderDrawData, C_glfwSwapBuffers, C_glfwPollEvents]
   \<and> C_draw \<in> set (before C_glfwPollEvents (drop (length (calls s)) (calls (loopBody W t s))))
   \<and> C_glfwPollEvents \<notin> set (before C_draw (drop (length (calls s)) (calls (loopBody W t s))))"
  by (simp add: loopBody_calls before_def)

text \<open>One iteration from a session that has made no call yet: nothing is polled before
  the draw.\<close>

theorem draw_then_poll_counterexample:
  "C_glfwPollEvents \<notin> set (before C_draw (calls (loopBody exactWorld idleTick session800)))
   \<and> C_draw \<in> set (calls (loopBody exactWorld idleTick session800))"
  by (simp add: loopBody_calls before_def session800_def)

lemma loopBody_closes:
  "closes t \<or> glfwWindowShouldClose (window s) \<Longrightarrow> glfwWindowShouldClose (window (loopBody W t (called cs s)))"
  by (cases "type (drawn t)")
     (auto simp add: closes_def loopBody_def callPerformAction_def called_def Let_def
        performAction_def glfw_defs split: option.splits)

lemma mainLoop_closed:
  "glfwWindowShouldClose (window s) \<Longrightarrow>
   mainLoop W ts s = Some (called [C_glfwWindowShouldClose] s)"
  by (cases ts) simp_all

lemma mainLoop_returns:
  "\<exists>t \<in> set script. closes t \<Longrightarrow> mainLoop W script s \<noteq> None"
proof (induction script arbitrary: s)
  case Nil
  then show ?case by simp
next
  case (Cons t ts)
  show ?case
  proof (cases "glfwWindowShouldClose (window s)")
    case True
    then show ?thesis by simp
  next
    case running: False
    show ?thesis
    proof (cases "closes t")
      case True
      then have "glfwWindowShouldClose
                   (window (loopBody W t (called [C_glfwWindowShouldClose] s)))"
        using loopBody_closes by blast
      then show ?thesis using running by (simp add: mainLoop_closed)
    next
      case False
      with Cons.prems have "\<exists>t \<in> set ts. closes t" by simp
      then show ?thesis using Cons.IH running by simp
    qed
  qed
qed

lemma mainLoop_running:
  "mainLoop W pre s = None \<Longrightarrow>
   mainLoop W (pre @ ts) s = mainLoop W ts (iterate W pre s)
   \<and> \<not> glfwWindowShouldClose (window (iterate W pre s))"
proof (induction pre arbitrary: s)
  case Nil
  then show ?case by (simp split: if_splits)
next
  case (Cons t pre)
  then show ?case by (simp split: if_splits)
qed

lemma iterate_calls:
  "\<exists>cs. calls (iterate W pre s) = calls s @ cs
        \<and> count_list cs C_draw = length pre \<and> count_list cs C_glfwSwapBuffers = length pre"
proof (induction pre arbitrary: s)
  case Nil
  then show ?case by simp
next
  case (Cons t pre)
  obtain cs where cs: "calls (iterate W pre (loopBody W t (called [C_glfwWindowShouldClose] s)))
      = calls (loopBody W t (called [C_glfwWindowShouldClose] s)) @ cs"
      "count_list cs C_draw = length pre" "count_list cs C_glfwSwapBuffers = length pre"
    using Cons.IH by blast
  show ?case
    by (rule exI [of _ "[C_glfwWindowShouldClose, C_ImGui_ImplOpenGL3_NewFrame, C_ImGui_ImplGlfw_NewFrame, C_ImGui_NewFrame,
                C_glfwGetTime, C_draw, C_performAction (type (drawn t)), C_ImGui_Render, C_ImGui_GetDrawData,
                C_ImGui_ImplOpenGL3_RenderDrawData, C_glfwSwapBuffers, C_glfwPollEvents] @ cs"])
       (simp add: cs loopBody_calls called_simps)
qed

lemma mainLoop_quit:
  assumes "mainLoop W pre s = None" and "type (drawn t) = QUIT"
  shows "mainLoop W (pre @ t # ts) s =
           Some (called [C_glfwWindowShouldClose]
                   (loopBody W t (called [C_glfwWindowShouldClose] (iterate W pre s))))"
proof -
  have r: "mainLoop W (pre @ t # ts) s = mainLoop W (t # ts) (iterate W pre s)"
    and o: "\<not> glfwWindowShouldClose (window (iterate W pre s))"
    using mainLoop_running [OF assms(1)] by simp_all
  have "glfwWindowShouldClose
          (window (loopBody W t (called [C_glfwWindowShouldClose] (iterate W pre s))))"
    using loopBody_closes assms(2) by (simp add: closes_def)
  then show ?thesis using r o by (simp add: mainLoop_closed)
qed

lemma main_startsUp:
  assumes "startsUp W config window0"
  shows "main W config script =
           (case mainLoop W script (loopEntry W config window0) of
              None \<Rightarrow> None
            | Some s \<Rightarrow>
                Some (0, calls s @ [C_ImGui_ImplOpenGL3_Shutdown, C_ImGui_ImplGlfw_Shutdown,
                                    C_ImGui_DestroyContext, C_clean, C_glfwDestroyWindow,
                                    C_glfwTerminate]))"
  using assms
  by (simp add: startsUp_def main_def rendererScope_def loopEntry_def called_def Let_def
      split: option.splits)


section \<open>main\<close>

lemma loopEntry_calls:
  "C_draw \<notin> set (calls (loopEntry W config window0))
   \<and> C_glfwSwapBuffers \<notin> set (calls (loopEntry W config window0))
   \<and> C_glfwPollEvents \<notin> set (calls (loopEntry W config window0))
   \<and> C_glfwWindowShouldClose \<notin> set (calls (loopEntry W config window0))"
  by (simp add: loopEntry_def rendererSetup_def contextCalls_def windowCalls_def
      callPerformAction_def called_def Let_def SystemAction_of_def)

lemma loopEntry_quit:
  assumes "exporting_path config \<noteq> []" and "\<not> startDirectRecording W"
  shows "glfwWindowShouldClose (window (loopEntry W config window0))
         \<and> C_performAction QUIT \<in> set (calls (loopEntry W config window0))"
  using assms
  by (simp add: loopEntry_def rendererSetup_def callPerformAction_def called_def Let_def
      SystemAction_of_def performAction_def glfw_defs)

lemma startsUp_exactWorld: "startsUp exactWorld config800 created800"
  by (simp add: startsUp_def exactWorld_def config800_def created800_def)

lemma rendererSetup_run:
  "(window (rendererSetup W config window0 tr), frame (rendererSetup W config window0 tr))
   = run W ((if exporting_path config \<noteq> [] \<and> \<not> startDirectRecording W
             then [Apply (SystemAction_of QUIT)] else [])
            @ (if fullscreen config then [Apply (SystemAction_of FULLSCREEN)] else []))
       (glfwSwapInterval 1 window0,
        readFrame (glfwSwapInterval 1 window0) \<lparr>c0 = 0, c1 = 0, c2 = 0, c3 = 0\<rparr>)"
  by (simp add: rendererSetup_def callPerformAction_def called_def Let_def)

text \<open>
  Claim C3. After a successful startup, let the loop go through the iterations \<open>pre\<close>
  without exiting, and let the draw of the next iteration return \<open>QUIT\<close>. Then \<^verbatim>\<open>main\<close>
  returns, whatever the script holds after that iteration, and what it calls after that
  draw is: \<^verbatim>\<open>performAction\<close> for \<open>QUIT\<close>, the rendering of the interface, one
  \<^verbatim>\<open>glfwSwapBuffers\<close>, \<^verbatim>\<open>glfwPollEvents\<close>, the test of the loop condition that ends
  the loop, and the clean-up; no draw follows. Every draw of the run, that one included,
  has its swap.
\<close>

theorem quit_tick_is_last:
  assumes "startsUp W config window0"
    and "mainLoop W pre (loopEntry W config window0) = None"
    and "type (drawn t) = QUIT"
  shows "\<exists>cs. main W config (pre @ t # ts) =
           Some (0, cs @ [C_draw, C_performAction QUIT, C_ImGui_Render, C_ImGui_GetDrawData,
                          C_ImGui_ImplOpenGL3_RenderDrawData, C_glfwSwapBuffers,
                          C_glfwPollEvents, C_glfwWindowShouldClose,
                          C_ImGui_ImplOpenGL3_Shutdown, C_ImGui_ImplGlfw_Shutdown,
                          C_ImGui_DestroyContext, C_clean, C_glfwDestroyWindow,
                          C_glfwTerminate])
         \<and> count_list cs C_draw = length pre
         \<and> count_list cs C_glfwSwapBuffers = length pre"
proof -
  let ?e = "loopEntry W config window0"
  obtain ds where ds: "calls (iterate W pre ?e) = calls ?e @ ds"
    "count_list ds C_draw = length pre" "count_list ds C_glfwSwapBuffers = length pre"
    using iterate_calls by blast
  have z: "count_list (calls ?e) C_draw = 0" "count_list (calls ?e) C_glfwSwapBuffers = 0"
    using loopEntry_calls [of W config window0] by (simp_all add: count_list_0_iff)
  let ?cs = "calls ?e @ ds @ [C_glfwWindowShouldClose, C_ImGui_ImplOpenGL3_NewFrame,
                              C_ImGui_ImplGlfw_NewFrame, C_ImGui_NewFrame, C_glfwGetTime]"
  have "main W config (pre @ t # ts) =
          Some (0, ?cs @ [C_draw, C_performAction QUIT, C_ImGui_Render, C_ImGui_GetDrawData,
                          C_ImGui_ImplOpenGL3_RenderDrawData, C_glfwSwapBuffers,
                          C_glfwPollEvents, C_glfwWindowShouldClose,
                          C_ImGui_ImplOpenGL3_Shutdown, C_ImGui_ImplGlfw_Shutdown,
                          C_ImGui_DestroyContext, C_clean, C_glfwDestroyWindow,
                          C_glfwTerminate])"
    by (simp add: main_startsUp [OF assms(1)] mainLoop_quit [OF assms(2) assms(3)]
        called_simps loopBody_calls ds(1) assms(3))
  moreover have "count_list ?cs C_draw = length pre"
    by (simp add: z ds(2))
  moreover have "count_list ?cs C_glfwSwapBuffers = length pre"
    by (simp add: z ds(3))
  ultimately show ?thesis by blast
qed

theorem quit_tick_is_last_witness:
  "startsUp exactWorld config800 created800
   \<and> mainLoop exactWorld [idleTick] (loopEntry exactWorld config800 created800) = None
   \<and> type (drawn quitTick) = QUIT
   \<and> (\<exists>cs. main exactWorld config800 ([idleTick] @ quitTick # [idleTick]) =
           Some (0, cs @ [C_draw, C_performAction QUIT, C_ImGui_Render, C_ImGui_GetDrawData,
                          C_ImGui_ImplOpenGL3_RenderDrawData, C_glfwSwapBuffers,
                          C_glfwPollEvents, C_glfwWindowShouldClose,
                          C_ImGui_ImplOpenGL3_Shutdown, C_ImGui_ImplGlfw_Shutdown,
                          C_ImGui_DestroyContext, C_clean, C_glfwDestroyWindow,
                          C_glfwTerminate])
         \<and> count_list cs C_draw = length [idleTick]
         \<and> count_list cs C_glfwSwapBuffers = length [idleTick])"
proof -
  have r: "mainLoop exactWorld [idleTick] (loopEntry exactWorld config800 created800) = None"
    by (simp add: loopEntry_def rendererSetup_def config800_def created800_def idleTick_def
        loopBody_def callPerformAction_def called_def Let_def SystemAction_of_def
        performAction_def glfw_defs exactWorld_def)
  have q: "type (drawn quitTick) = QUIT"
    by (simp add: quitTick_def SystemAction_of_def)
  show ?thesis
    using quit_tick_is_last [OF startsUp_exactWorld r q, of "[idleTick]"]
          startsUp_exactWorld r q
    by blast
qed

text \<open>
  Claim C8. After a successful startup with a direct export requested, if
  \<^verbatim>\<open>startDirectRecording\<close> fails, \<^verbatim>\<open>performAction\<close> is called for \<open>QUIT\<close> before the
  loop; the loop condition is tested once and the body never runs (no draw, no swap),
  whatever the script; the interface is shut down, \<^verbatim>\<open>renderer.clean()\<close> is called, the
  window is destroyed and GLFW terminated, and \<^verbatim>\<open>main\<close> returns 0.
\<close>

theorem export_failure_quits:
  assumes "startsUp W config window0"
    and "exporting_path config \<noteq> []" and "\<not> startDirectRecording W"
  shows "\<exists>cs. main W config script =
           Some (0, cs @ [C_glfwWindowShouldClose, C_ImGui_ImplOpenGL3_Shutdown,
                          C_ImGui_ImplGlfw_Shutdown, C_ImGui_DestroyContext, C_clean,
                          C_glfwDestroyWindow, C_glfwTerminate])
         \<and> C_performAction QUIT \<in> set cs
         \<and> C_glfwWindowShouldClose \<notin> set cs
         \<and> C_draw \<notin> set cs \<and> C_glfwSwapBuffers \<notin> set cs"
proof -
  let ?e = "loopEntry W config window0"
  have "main W config script =
          Some (0, calls ?e @ [C_glfwWindowShouldClose, C_ImGui_ImplOpenGL3_Shutdown,
                               C_ImGui_ImplGlfw_Shutdown, C_ImGui_DestroyContext, C_clean,
                               C_glfwDestroyWindow, C_glfwTerminate])"
    using loopEntry_quit [OF assms(2) assms(3), of window0]
    by (simp add: main_startsUp [OF assms(1)] mainLoop_closed called_simps)
  then show ?thesis
    using loopEntry_quit [OF assms(2) assms(3), of window0] loopEntry_calls [of W config window0]
    by blast
qed

theorem export_failure_quits_witness:
  "startsUp exactWorld exportConfig created800
   \<and> exporting_path exportConfig \<noteq> [] \<and> \<not> startDirectRecording exactWorld
   \<and> (\<exists>cs. main exactWorld exportConfig [idleTick, idleTick] =
           Some (0, cs @ [C_glfwWindowShouldClose, C_ImGui_ImplOpenGL3_Shutdown,
                          C_ImGui_ImplGlfw_Shutdown, C_ImGui_DestroyContext, C_clean,
                          C_glfwDestroyWindow, C_glfwTerminate])
         \<and> C_performAction QUIT \<in> set cs
         \<and> C_glfwWindowShouldClose \<notin> set cs
         \<and> C_draw \<notin> set cs \<and> C_glfwSwapBuffers \<notin> set cs)"
proof -
  have u: "startsUp exactWorld exportConfig created800"
    by (simp add: startsUp_def exactWorld_def exportConfig_def config800_def created800_def)
  have p: "exporting_path exportConfig \<noteq> []"
    by (simp add: exportConfig_def)
  have f: "\<not> startDirectRecording exactWorld"
    by (simp add: exactWorld_def)
  show ?thesis
    using export_failure_quits [OF u p f, of "[idleTick, idleTick]"] u p f by blast
qed

text \<open>
  Claim C7. \<^verbatim>\<open>main\<close> returns 2 when GLFW does not start and when the window cannot be
  created; 0 when help or version is displayed; -1, which is neither 0 nor 2, when the
  OpenGL loader fails and when OpenGL 3.2 is not supported; and 0 after a successful
  startup, whenever it returns, which it does as soon as an iteration raises the close
  flag. The calls of the four failures are the calls of startup followed by the error
  message (and \<^verbatim>\<open>glfwTerminate\<close> where the source calls it): the loop condition is never
  tested and nothing is drawn.
\<close>

theorem exit_codes:
  "(\<not> glfwInit W \<longrightarrow>
      main W config script = Some (2, [C_glfwInit, C_cerr ''[ERROR]: could not start GLFW3'']))
   \<and> (glfwInit W \<and> showHelp config \<longrightarrow>
      main W config script =
        Some (0, [C_glfwInit, C_Configuration, C_printHelp, C_glfwTerminate]))
   \<and> (glfwInit W \<and> \<not> showHelp config \<and> showVersion config \<longrightarrow>
      main W config script =
        Some (0, [C_glfwInit, C_Configuration, C_printVersion, C_glfwTerminate]))
   \<and> (glfwInit W \<and> \<not> showHelp config \<and> \<not> showVersion config
      \<and> glfwCreateWindow W (fst (windowSize config)) (snd (windowSize config)) = None \<longrightarrow>
      main W config script =
        Some (2, windowCalls @ [C_cerr ''[ERROR]: could not open window with GLFW3'',
                                C_glfwTerminate]))
   \<and> (glfwInit W \<and> \<not> showHelp config \<and> \<not> showVersion config
      \<and> glfwCreateWindow W (fst (windowSize config)) (snd (windowSize config)) = Some wnd
      \<and> gl3wInit W \<noteq> 0 \<longrightarrow>
      main W config script =
        Some (- 1, contextCalls @ [C_cerr ''[ERROR]: Failed to initialize OpenGL'']))
   \<and> (glfwInit W \<and> \<not> showHelp config \<and> \<not> showVersion config
      \<and> glfwCreateWindow W (fst (windowSize config)) (snd (windowSize config)) = Some wnd
      \<and> gl3wInit W = 0 \<and> \<not> gl3wIsSupported W \<longrightarrow>
      main W config script =
        Some (- 1, contextCalls @ [C_gl3wIsSupported,
                                   C_cerr ''[ERROR]: OpenGL 3.2 not supported\<newline>'']))
   \<and> (startsUp W config wnd \<longrightarrow>
        (\<forall>c tr. main W config script = Some (c, tr) \<longrightarrow> c = 0)
        \<and> ((\<exists>t \<in> set script. closes t) \<longrightarrow> (\<exists>tr. main W config script = Some (0, tr))))
   \<and> C_glfwWindowShouldClose \<notin> set contextCalls \<and> C_draw \<notin> set contextCalls
   \<and> set windowCalls \<subseteq> set contextCalls
   \<and> (- 1 :: int) \<noteq> 0 \<and> (- 1 :: int) \<noteq> 2"
proof -
  have ok: "startsUp W config wnd \<longrightarrow>
        (\<forall>c tr. main W config script = Some (c, tr) \<longrightarrow> c = 0)
        \<and> ((\<exists>t \<in> set script. closes t) \<longrightarrow> (\<exists>tr. main W config script = Some (0, tr)))"
  proof
    assume u: "startsUp W config wnd"
    have a: "\<forall>c tr. main W config script = Some (c, tr) \<longrightarrow> c = 0"
      by (auto simp add: main_startsUp [OF u] split: option.splits)
    have b: "(\<exists>t \<in> set script. closes t) \<longrightarrow> (\<exists>tr. main W config script = Some (0, tr))"
    proof
      assume "\<exists>t \<in> set script. closes t"
      then have "mainLoop W script (loopEntry W config wnd) \<noteq> None"
        by (rule mainLoop_returns)
      then show "\<exists>tr. main W config script = Some (0, tr)"
        by (auto simp add: main_startsUp [OF u])
    qed
    from a b show "(\<forall>c tr. main W config script = Some (c, tr) \<longrightarrow> c = 0)
        \<and> ((\<exists>t \<in> set script. closes t) \<longrightarrow> (\<exists>tr. main W config script = Some (0, tr)))"
      by blast
  qed
  have fails: "(\<not> glfwInit W \<longrightarrow>
      main W config script = Some (2, [C_glfwInit, C_cerr ''[ERROR]: could not start GLFW3'']))
   \<and> (glfwInit W \<and> showHelp config \<longrightarrow>
      main W config script =
        Some (0, [C_glfwInit, C_Configuration, C_printHelp, C_glfwTerminate]))
   \<and> (glfwInit W \<and> \<not> showHelp config \<and> showVersion config \<longrightarrow>
      main W config script =
        Some (0, [C_glfwInit, C_Configuration, C_printVersion, C_glfwTerminate]))
   \<and> (glfwInit W \<and> \<not> showHelp config \<and> \<not> showVersion config
      \<and> glfwCreateWindow W (fst (windowSize config)) (snd (windowSize config)) = None \<longrightarrow>
      main W config script =
        Some (2, windowCalls @ [C_cerr ''[ERROR]: could not open window with GLFW3'',
                                C_glfwTerminate]))
   \<and> (glfwInit W \<and> \<not> showHelp config \<and> \<not> showVersion config
      \<and> glfwCreateWindow W (fst (windowSize config)) (snd (windowSize config)) = Some wnd
      \<and> gl3wInit W \<noteq> 0 \<longrightarrow>
      main W config script =
        Some (- 1, contextCalls @ [C_cerr ''[ERROR]: Failed to initialize OpenGL'']))
   \<and> (glfwInit W \<and> \<not> showHelp config \<and> \<not> showVersion config
      \<and> glfwCreateWindow W (fst (windowSize config)) (snd (windowSize config)) = Some wnd
      \<and> gl3wInit W = 0 \<and> \<not> gl3wIsSupported W \<longrightarrow>
      main W config script =
        Some (- 1, contextCalls @ [C_gl3wIsSupported,
                                   C_cerr ''[ERROR]: OpenGL 3.2 not supported\<newline>'']))"
    by (simp add: main_def Let_def)
  have tr: "C_glfwWindowShouldClose \<notin> set contextCalls \<and> C_draw \<notin> set contextCalls
      \<and> set windowCalls \<subseteq> set contextCalls"
    by (simp add: contextCalls_def windowCalls_def)
  have num: "(- 1 :: int) \<noteq> 0 \<and> (- 1 :: int) \<noteq> 2"
    by simp
  from fails ok tr num show ?thesis by blast
qed

theorem exit_codes_witness:
  "map_option fst (main (exactWorld\<lparr>glfwInit := False\<rparr>) config800 []) = Some 2
   \<and> map_option fst (main exactWorld helpConfig []) = Some 0
   \<and> map_option fst (main exactWorld versionConfig []) = Some 0
   \<and> map_option fst (main (exactWorld\<lparr>glfwCreateWindow := (\<lambda>wd ht. None)\<rparr>) config800 [])
       = Some 2
   \<and> map_option fst (main (exactWorld\<lparr>gl3wInit := - 1\<rparr>) config800 []) = Some (- 1)
   \<and> map_option fst (main (exactWorld\<lparr>gl3wIsSupported := False\<rparr>) config800 []) = Some (- 1)
   \<and> map_option fst (main exactWorld config800 [idleTick, quitTick]) = Some 0"
proof -
  have 1: "map_option fst (main (exactWorld\<lparr>glfwInit := False\<rparr>) config800 []) = Some 2"
    using exit_codes [where W = "exactWorld\<lparr>glfwInit := False\<rparr>" and config = config800
                       and script = "[]", THEN conjunct1]
    by simp
  have 2: "map_option fst (main exactWorld helpConfig []) = Some 0"
    using exit_codes [where W = exactWorld and config = helpConfig and script = "[]",
                      THEN conjunct2, THEN conjunct1]
    by (simp add: exactWorld_def helpConfig_def)
  have 3: "map_option fst (main exactWorld versionConfig []) = Some 0"
    using exit_codes [where W = exactWorld and config = versionConfig and script = "[]",
                      THEN conjunct2, THEN conjunct2, THEN conjunct1]
    by (simp add: exactWorld_def versionConfig_def config800_def)
  have 4: "map_option fst (main (exactWorld\<lparr>glfwCreateWindow := (\<lambda>wd ht. None)\<rparr>)
                             config800 []) = Some 2"
    using exit_codes [where W = "exactWorld\<lparr>glfwCreateWindow := (\<lambda>wd ht. None)\<rparr>"
                       and config = config800 and script = "[]",
                      THEN conjunct2, THEN conjunct2, THEN conjunct2, THEN conjunct1]
    by (simp add: exactWorld_def config800_def)
  have 5: "map_option fst (main (exactWorld\<lparr>gl3wInit := - 1\<rparr>) config800 []) = Some (- 1)"
    using exit_codes [where W = "exactWorld\<lparr>gl3wInit := - 1\<rparr>" and config = config800
                       and script = "[]" and wnd = created800,
                      THEN conjunct2, THEN conjunct2, THEN conjunct2, THEN conjunct2,
                      THEN conjunct1]
    by (simp add: exactWorld_def config800_def created800_def)
  have 6: "map_option fst (main (exactWorld\<lparr>gl3wIsSupported := False\<rparr>) config800 [])
           = Some (- 1)"
    using exit_codes [where W = "exactWorld\<lparr>gl3wIsSupported := False\<rparr>"
                       and config = config800 and script = "[]" and wnd = created800,
                      THEN conjunct2, THEN conjunct2, THEN conjunct2, THEN conjunct2,
                      THEN conjunct2, THEN conjunct1]
    by (simp add: exactWorld_def config800_def created800_def)
  have q: "\<exists>t \<in> set [idleTick, quitTick]. closes t"
    by (simp add: closes_def quitTick_def SystemAction_of_def)
  have "\<exists>tr. main exactWorld config800 [idleTick, quitTick] = Some (0, tr)"
    using exit_codes [where W = exactWorld and config = config800
                       and script = "[idleTick, quitTick]" and wnd = created800,
                      THEN conjunct2, THEN conjunct2, THEN conjunct2, THEN conjunct2,
                      THEN conjunct2, THEN conjunct2, THEN conjunct1]
          startsUp_exactWorld q
    by blast
  then have 7: "map_option fst (main exactWorld config800 [idleTick, quitTick]) = Some 0"
    by auto
  from 1 2 3 4 5 6 7 show ?thesis by blast
qed

end
